theory Spec2Isabelle
  imports Main
begin

text \<open>
  The three request handlers of \<^verbatim>\<open>main.py\<close>: the webhook that upserts a user, the two
  readers of the game catalogue, and the lookup of a user. Each handler is a function from
  the request and the state (the users table and the file system) to the response and
  the state after the request. What the handlers call outside the program is a
  parameter: the verification of the signature, the JSON parser, the database driver's
  treatment of values that are not strings, and Python's update of a dictionary from a
  value that is not one.
\<close>

section \<open>Values and exceptions\<close>

text \<open>
  The values \<^verbatim>\<open>json.loads\<close> produces and the handlers pass around: \<^verbatim>\<open>None\<close>,
  booleans, numbers, strings, lists and dictionaries with string keys. A dictionary is a
  partial map from its keys to its values, so a key occurs at most once, as in Python.
  The handlers never inspect a number; \<open>JFloat m e\<close> stands for the float \<open>m * 2^e\<close>.
\<close>

datatype json =
    JNull
  | JBool bool
  | JInt int
  | JFloat int int
  | JStr string
  | JArr "json list"
  | JObj "string \<Rightarrow> json option"

text \<open>
  Every \<^verbatim>\<open>raise\<close> of the program and of the calls it makes is a value.
  \<open>HTTPException\<close> carries the status code and the detail of the source; every other
  exception is not caught by any handler.
\<close>

datatype error =
    HTTPException nat string
  | WebhookVerificationError
  | AttributeError
  | TypeError
  | IndexError
  | KeyError
  | ValueError
  | JSONDecodeError
  | OSError
  | DBAPIError
  | IntegrityError

text \<open>
  What the client sees: the framework answers a returned value with 200, an
  \<open>HTTPException\<close> with its own status code, and any other exception with 500.
\<close>

fun status_code :: "error + json \<Rightarrow> nat" where
  "status_code (Inr v) = 200"
| "status_code (Inl (HTTPException code detail)) = code"
| "status_code (Inl e) = 500"

text \<open>\<^verbatim>\<open>d.get(k, dflt)\<close>: only a dictionary has the method.\<close>

fun py_get :: "json \<Rightarrow> string \<Rightarrow> json \<Rightarrow> error + json" where
  "py_get (JObj d) k dflt = Inr (case d k of None \<Rightarrow> dflt | Some v \<Rightarrow> v)"
| "py_get v k dflt = Inl AttributeError"

text \<open>
  \<^verbatim>\<open>v[0]\<close>: the first element of a list, the first character of a string (a string
  of length one), \<^verbatim>\<open>KeyError\<close> on a dictionary (its keys are strings, never \<^verbatim>\<open>0\<close>),
  \<^verbatim>\<open>IndexError\<close> on an empty list or string, \<^verbatim>\<open>TypeError\<close> on anything else.
\<close>

fun py_index0 :: "json \<Rightarrow> error + json" where
  "py_index0 (JArr xs) = (case xs of [] \<Rightarrow> Inl IndexError | x # rest \<Rightarrow> Inr x)"
| "py_index0 (JStr s) = (case s of [] \<Rightarrow> Inl IndexError | c # rest \<Rightarrow> Inr (JStr [c]))"
| "py_index0 (JObj d) = Inl KeyError"
| "py_index0 v = Inl TypeError"

text \<open>\<^verbatim>\<open>v["k"]\<close> with a string key: defined on dictionaries only.\<close>

fun py_item :: "json \<Rightarrow> string \<Rightarrow> error + json" where
  "py_item (JObj d) k = (case d k of None \<Rightarrow> Inl KeyError | Some v \<Rightarrow> Inr v)"
| "py_item v k = Inl TypeError"

section \<open>The users table\<close>

text \<open>
  A row of table \<^verbatim>\<open>users\<close>. Column \<^verbatim>\<open>id\<close> is the primary key, hence never
  \<^verbatim>\<open>NULL\<close>; the three other columns are nullable. The table is the list of its rows.
\<close>

record user =
  id_col :: string
  email :: "string option"
  username :: "string option"
  profile_picture_url :: "string option"

section \<open>The state the handlers share\<close>

text \<open>
  The file system as the two game handlers read it: the paths
  \<^verbatim>\<open>Path("./games").rglob("data.json")\<close> yields (the entries named
  \<^verbatim>\<open>data.json\<close> below \<^verbatim>\<open>./games\<close>), in the order it yields them; what
  \<^verbatim>\<open>Path.exists()\<close> gives on a path, which is a boolean or, for a path the operating
  system refuses (a name that is too long, a directory that may not be searched), an
  \<^verbatim>\<open>OSError\<close>; and what opening a path for reading and reading it gives. The state
  of a request is the users table and the file system.
\<close>

record filesystem =
  rglob_data_json :: "string list"
  path_exists :: "string \<Rightarrow> error + bool"
  read_text :: "string \<Rightarrow> error + string"

record world =
  users :: "user list"
  files :: filesystem

section \<open>Statements on the users table\<close>

text \<open>
  A value bound to a \<^verbatim>\<open>String\<close> column: \<^verbatim>\<open>None\<close> is \<^verbatim>\<open>NULL\<close>, a string is
  itself. What happens to any other value is the database driver's business, not the
  program's: \<open>coerce\<close> is that driver, \<open>None\<close> when it refuses the value and the stored
  text when it accepts it.
\<close>

definition bind_param :: "(json \<Rightarrow> string option) \<Rightarrow> json \<Rightarrow> error + string option" where
  "bind_param coerce v =
     (case v of
        JNull \<Rightarrow> Inr None
      | JStr s \<Rightarrow> Inr (Some s)
      | _ \<Rightarrow> (case coerce v of None \<Rightarrow> Inl DBAPIError | Some s \<Rightarrow> Inr (Some s)))"

text \<open>
  \<^verbatim>\<open>db.query(User).filter(User.id == user_id).first()\<close>: the first row with that id;
  comparing with \<^verbatim>\<open>None\<close> selects the rows whose id is \<^verbatim>\<open>NULL\<close>, and there are none.
\<close>

definition query_first :: "user list \<Rightarrow> string option \<Rightarrow> user option" where
  "query_first rows k =
     (case k of None \<Rightarrow> None | Some i \<Rightarrow> find (\<lambda>u. id_col u = i) rows)"

text \<open>
  Column \<^verbatim>\<open>email\<close> is declared \<^verbatim>\<open>unique=True\<close>: a row cannot take an address that
  a row with another id holds. \<^verbatim>\<open>NULL\<close> collides with nothing.
\<close>

definition email_taken :: "user list \<Rightarrow> string \<Rightarrow> string option \<Rightarrow> bool" where
  "email_taken rows i e =
     (case e of
        None \<Rightarrow> False
      | Some a \<Rightarrow> list_ex (\<lambda>u. id_col u \<noteq> i \<and> email u = Some a) rows)"

text \<open>
  \<^verbatim>\<open>db.commit()\<close> after the attributes of a loaded row were assigned: an
  \<^verbatim>\<open>UPDATE\<close> of the rows with that id, refused when the new address is taken.
\<close>

definition commit_update ::
  "user list \<Rightarrow> string \<Rightarrow> string option \<Rightarrow> string option \<Rightarrow> string option \<Rightarrow> error + user list" where
  "commit_update rows i e n p =
     (if email_taken rows i e then Inl IntegrityError
      else Inr (map (\<lambda>u. if id_col u = i
                          then u\<lparr>email := e, username := n, profile_picture_url := p\<rparr>
                          else u) rows))"

text \<open>
  \<^verbatim>\<open>db.commit()\<close> after \<^verbatim>\<open>db.add(new_user)\<close>: an \<^verbatim>\<open>INSERT\<close>, refused when the
  primary key is \<^verbatim>\<open>NULL\<close> or already in the table, or when the address is taken.
\<close>

definition commit_insert ::
  "user list \<Rightarrow> string option \<Rightarrow> string option \<Rightarrow> string option \<Rightarrow> string option \<Rightarrow> error + user list" where
  "commit_insert rows k e n p =
     (case k of
        None \<Rightarrow> Inl IntegrityError
      | Some i \<Rightarrow>
          if i \<in> set (map id_col rows) \<or> email_taken rows i e then Inl IntegrityError
          else Inr (rows @ [\<lparr>id_col = i, email = e, username = n, profile_picture_url = p\<rparr>]))"

section \<open>The webhook handler\<close>

record request =
  headers :: "string \<Rightarrow> string option"
  body :: string

record svix_headers =
  svix_id :: "string option"
  svix_timestamp :: "string option"
  svix_signature :: "string option"

definition svix_headers_of :: "request \<Rightarrow> svix_headers" where
  "svix_headers_of req =
     \<lparr>svix_id = headers req ''svix-id'',
      svix_timestamp = headers req ''svix-timestamp'',
      svix_signature = headers req ''svix-signature''\<rparr>"

text \<open>\<^verbatim>\<open>json_payload.get("data", {}).get("object", {})\<close>\<close>

definition user_data_of :: "json \<Rightarrow> error + json" where
  "user_data_of json_payload =
     (case py_get json_payload ''data'' (JObj Map.empty) of
        Inl e \<Rightarrow> Inl e
      | Inr d \<Rightarrow> py_get d ''object'' (JObj Map.empty))"

text \<open>\<^verbatim>\<open>user_data.get("email_addresses")[0]["email_address"]\<close>\<close>

definition first_email :: "json \<Rightarrow> error + json" where
  "first_email user_data =
     (case py_get user_data ''email_addresses'' JNull of
        Inl e \<Rightarrow> Inl e
      | Inr addresses \<Rightarrow>
          (case py_index0 addresses of
             Inl e \<Rightarrow> Inl e
           | Inr a \<Rightarrow> py_item a ''email_address''))"

text \<open>
  The four reads of \<^verbatim>\<open>user_data\<close> in the order of the source (lines 66 to 69), and
  the four values as they are bound to the columns. The query binds the id and the flush
  of the commit binds the other three; a value the driver refuses ends the request
  before anything is written in either place, so the four are bound here in one go.
\<close>

definition column_values ::
  "(json \<Rightarrow> string option) \<Rightarrow> json
     \<Rightarrow> error + (string option \<times> string option \<times> string option \<times> string option)" where
  "column_values coerce user_data =
     (case py_get user_data ''id'' JNull of Inl e \<Rightarrow> Inl e | Inr user_id \<Rightarrow>
      case first_email user_data of Inl e \<Rightarrow> Inl e | Inr email_v \<Rightarrow>
      case py_get user_data ''username'' JNull of Inl e \<Rightarrow> Inl e | Inr username_v \<Rightarrow>
      case py_get user_data ''profile_image_url'' JNull of Inl e \<Rightarrow> Inl e | Inr picture_v \<Rightarrow>
      case bind_param coerce user_id of Inl e \<Rightarrow> Inl e | Inr k \<Rightarrow>
      case bind_param coerce email_v of Inl e \<Rightarrow> Inl e | Inr e \<Rightarrow>
      case bind_param coerce username_v of Inl e \<Rightarrow> Inl e | Inr n \<Rightarrow>
      case bind_param coerce picture_v of Inl e \<Rightarrow> Inl e | Inr p \<Rightarrow>
      Inr (k, e, n, p))"

text \<open>
  The branch for \<^verbatim>\<open>user.created\<close> and \<^verbatim>\<open>user.updated\<close>: the reads, the query,
  the assignment to the row found or the \<^verbatim>\<open>db.add\<close> of a new one, and the commit.
  The result is the table after the commit, or the exception that ended the request.
\<close>

definition upsert_user :: "(json \<Rightarrow> string option) \<Rightarrow> json \<Rightarrow> user list \<Rightarrow> error + user list" where
  "upsert_user coerce user_data rows =
     (case column_values coerce user_data of
        Inl e \<Rightarrow> Inl e
      | Inr (k, e, n, p) \<Rightarrow>
          (case query_first rows k of
             Some db_user \<Rightarrow> commit_update rows (id_col db_user) e n p
           | None \<Rightarrow> commit_insert rows k e n p))"

text \<open>\<^verbatim>\<open>event_type in ["user.created", "user.updated"]\<close>: only a string equals one.\<close>

fun in_user_events :: "json \<Rightarrow> bool" where
  "in_user_events (JStr s) = (s = ''user.created'' \<or> s = ''user.updated'')"
| "in_user_events v = False"

definition success :: json where
  "success = JObj [''status'' \<mapsto> JStr ''success'']"

text \<open>
  \<^verbatim>\<open>handle_webhook\<close>. \<open>verify\<close> stands for the body of the \<^verbatim>\<open>try\<close> (lines 56 to
  58): on the raw body and the three headers, \<^verbatim>\<open>Webhook(SVIX_SECRET).verify\<close> returns
  the parsed body or raises. Only \<^verbatim>\<open>WebhookVerificationError\<close> is caught. An
  exception leaves the session uncommitted, so the table is the one before the request.
\<close>

definition handle_webhook ::
  "(string \<Rightarrow> svix_headers \<Rightarrow> error + json) \<Rightarrow> (json \<Rightarrow> string option) \<Rightarrow> request \<Rightarrow> world
     \<Rightarrow> (error + json) \<times> world" where
  "handle_webhook verify coerce req w =
     (case verify (body req) (svix_headers_of req) of
        Inl WebhookVerificationError \<Rightarrow>
          (Inl (HTTPException 400 ''Invalid webhook signature''), w)
      | Inl e \<Rightarrow> (Inl e, w)
      | Inr json_payload \<Rightarrow>
          (case py_get json_payload ''type'' JNull of Inl e \<Rightarrow> (Inl e, w) | Inr event_type \<Rightarrow>
           case user_data_of json_payload of Inl e \<Rightarrow> (Inl e, w) | Inr user_data \<Rightarrow>
           if in_user_events event_type
           then (case upsert_user coerce user_data (users w) of
                   Inl e \<Rightarrow> (Inl e, w)
                 | Inr rows \<Rightarrow> (Inr success, w\<lparr>users := rows\<rparr>))
           else (Inr success, w)))"

text \<open>A sequence of webhook requests, each handled on the state the previous one left.\<close>

fun run_webhooks ::
  "(string \<Rightarrow> svix_headers \<Rightarrow> error + json) \<Rightarrow> (json \<Rightarrow> string option) \<Rightarrow> request list \<Rightarrow> world
     \<Rightarrow> world" where
  "run_webhooks verify coerce [] w = w"
| "run_webhooks verify coerce (req # reqs) w =
     run_webhooks verify coerce reqs (snd (handle_webhook verify coerce req w))"

section \<open>The game catalogue\<close>

text \<open>
  \<^verbatim>\<open>combined_data.update(parsed_data)\<close>: the entries of a dictionary replace and
  extend those of \<open>combined\<close>. For a value that is not a dictionary Python iterates it
  as pairs; that protocol is \<open>update_iter\<close>, outside the program.
\<close>

definition dict_update ::
  "((string \<Rightarrow> json option) \<Rightarrow> json \<Rightarrow> error + (string \<Rightarrow> json option))
     \<Rightarrow> (string \<Rightarrow> json option) \<Rightarrow> json \<Rightarrow> error + (string \<Rightarrow> json option)" where
  "dict_update update_iter combined parsed_data =
     (case parsed_data of
        JObj d \<Rightarrow> Inr (combined ++ d)
      | _ \<Rightarrow> update_iter combined parsed_data)"

text \<open>The loop of \<^verbatim>\<open>get_combined_json\<close> over the paths still to visit.\<close>

fun merge_files ::
  "(string \<Rightarrow> error + json)
     \<Rightarrow> ((string \<Rightarrow> json option) \<Rightarrow> json \<Rightarrow> error + (string \<Rightarrow> json option))
     \<Rightarrow> filesystem \<Rightarrow> string list \<Rightarrow> (string \<Rightarrow> json option)
     \<Rightarrow> error + (string \<Rightarrow> json option)" where
  "merge_files loads update_iter fs [] combined = Inr combined"
| "merge_files loads update_iter fs (json_file # rest) combined =
     (case read_text fs json_file of Inl e \<Rightarrow> Inl e | Inr data \<Rightarrow>
      case loads data of Inl e \<Rightarrow> Inl e | Inr parsed_data \<Rightarrow>
      case dict_update update_iter combined parsed_data of
        Inl e \<Rightarrow> Inl e
      | Inr combined' \<Rightarrow> merge_files loads update_iter fs rest combined')"

definition get_combined_json ::
  "(string \<Rightarrow> error + json)
     \<Rightarrow> ((string \<Rightarrow> json option) \<Rightarrow> json \<Rightarrow> error + (string \<Rightarrow> json option))
     \<Rightarrow> world \<Rightarrow> (error + json) \<times> world" where
  "get_combined_json loads update_iter w =
     (case merge_files loads update_iter (files w) (rglob_data_json (files w))
             [''__comment__'' \<mapsto> JStr ''Combined data''] of
        Inl e \<Rightarrow> (Inl e, w)
      | Inr combined_data \<Rightarrow> (Inr (JObj combined_data), w))"


text \<open>The value of a key in the object a handler returned, if it returned one.\<close>

definition response_key :: "error + json \<Rightarrow> string \<Rightarrow> json option" where
  "response_key r k = (case r of Inr (JObj d) \<Rightarrow> d k | _ \<Rightarrow> None)"

section \<open>The user lookup\<close>

definition nullable :: "string option \<Rightarrow> json" where
  "nullable c = (case c of None \<Rightarrow> JNull | Some s \<Rightarrow> JStr s)"

definition user_json :: "user \<Rightarrow> json" where
  "user_json db_user =
     JObj [''id'' \<mapsto> JStr (id_col db_user),
           ''email'' \<mapsto> nullable (email db_user),
           ''username'' \<mapsto> nullable (username db_user),
           ''profile_picture_url'' \<mapsto> nullable (profile_picture_url db_user)]"

definition get_user_data :: "string \<Rightarrow> world \<Rightarrow> (error + json) \<times> world" where
  "get_user_data user_id w =
     (case find (\<lambda>u. id_col u = user_id) (users w) of
        Some db_user \<Rightarrow> (Inr (user_json db_user), w)
      | None \<Rightarrow> (Inl (HTTPException 404 ''User not found''), w))"

section \<open>Example requests and states\<close>

text \<open>
  Concrete inputs on which the theorems below are exercised. The verifier accepts one
  signature and then returns a fixed payload; on the signature \<^verbatim>\<open>v1,forged\<close>, which is
  not base64, it raises the \<^verbatim>\<open>ValueError\<close> of the decoder (\<^verbatim>\<open>binascii.Error\<close>), as
  the library does before it compares anything; on any other signature it raises
  \<^verbatim>\<open>WebhookVerificationError\<close>. Then a driver that refuses every value that is neither
  a string nor \<^verbatim>\<open>None\<close>, three requests, events of the shape the handler reads, two
  users, and two game directories with the parser's results on their files; in them a
  directory name of more than 255 characters, that is a path of more than 273, makes
  \<^verbatim>\<open>Path.exists()\<close> raise.
\<close>

definition example_verify :: "json \<Rightarrow> string \<Rightarrow> svix_headers \<Rightarrow> error + json" where
  "example_verify json_payload payload hdrs =
     (if svix_signature hdrs = Some ''v1,dmFsaWQ='' then Inr json_payload
      else if svix_signature hdrs = Some ''v1,forged'' then Inl ValueError
      else Inl WebhookVerificationError)"

definition strict_driver :: "json \<Rightarrow> string option" where
  "strict_driver v = None"

definition signed_request :: request where
  "signed_request =
     \<lparr>headers = [''svix-id'' \<mapsto> ''msg_1'', ''svix-timestamp'' \<mapsto> ''1700000000'',
                 ''svix-signature'' \<mapsto> ''v1,dmFsaWQ=''],
      body = ''{}''\<rparr>"

definition forged_request :: request where
  "forged_request =
     \<lparr>headers = [''svix-id'' \<mapsto> ''msg_2'', ''svix-timestamp'' \<mapsto> ''1700000000'',
                 ''svix-signature'' \<mapsto> ''v1,Zm9yZ2Vk''],
      body = ''{}''\<rparr>"


definition user_object :: "json \<Rightarrow> json" where
  "user_object user_data = JObj [''object'' \<mapsto> user_data]"

definition user_fields :: "string \<Rightarrow> string \<Rightarrow> string \<Rightarrow> string \<Rightarrow> json" where
  "user_fields i e n p =
     JObj [''id'' \<mapsto> JStr i,
           ''email_addresses'' \<mapsto> JArr [JObj [''email_address'' \<mapsto> JStr e]],
           ''username'' \<mapsto> JStr n,
           ''profile_image_url'' \<mapsto> JStr p]"

definition user_event :: "string \<Rightarrow> string \<Rightarrow> string \<Rightarrow> string \<Rightarrow> string \<Rightarrow> json" where
  "user_event event_type i e n p =
     JObj [''type'' \<mapsto> JStr event_type, ''data'' \<mapsto> user_object (user_fields i e n p)]"

definition alice :: user where
  "alice = \<lparr>id_col = ''user_1'', email = Some ''alice@example.com'',
            username = Some ''alice'', profile_picture_url = None\<rparr>"

definition bob :: user where
  "bob = \<lparr>id_col = ''user_2'', email = Some ''bob@example.com'',
          username = Some ''bob'', profile_picture_url = Some ''https://img.example.com/2.png''\<rparr>"

definition no_files :: filesystem where
  "no_files = \<lparr>rglob_data_json = [], path_exists = (\<lambda>p. Inr False), read_text = (\<lambda>p. Inl OSError)\<rparr>"

definition two_users :: world where
  "two_users = \<lparr>users = [alice, bob], files = no_files\<rparr>"

definition carol_created :: json where
  "carol_created =
     user_event ''user.created'' ''user_3'' ''carol@example.com'' ''carol''
       ''https://img.example.com/3.png''"

definition no_id_event :: json where
  "no_id_event =
     JObj [''type'' \<mapsto> JStr ''user.created'',
           ''data'' \<mapsto> user_object (JObj
              [''email_addresses'' \<mapsto> JArr [JObj [''email_address'' \<mapsto> JStr ''dave@example.com'']],
               ''username'' \<mapsto> JStr ''dave''])]"

definition ping_event :: json where
  "ping_event = JObj [''type'' \<mapsto> JStr ''session.created'']"

definition null_data_event :: json where
  "null_data_event = JObj [''type'' \<mapsto> JStr ''session.created'', ''data'' \<mapsto> JNull]"

definition no_email_event :: json where
  "no_email_event =
     JObj [''type'' \<mapsto> JStr ''user.created'',
           ''data'' \<mapsto> user_object (JObj
              [''id'' \<mapsto> JStr ''user_4'', ''email_addresses'' \<mapsto> JArr []])]"

definition alice_takes_bobs_email :: json where
  "alice_takes_bobs_email =
     user_event ''user.updated'' ''user_1'' ''bob@example.com'' ''alice'' ''https://img.example.com/1.png''"

definition alice_updated :: json where
  "alice_updated =
     user_event ''user.updated'' ''user_1'' ''alice@example.org'' ''alice2'' ''https://img.example.com/1.png''"

definition carol_takes_bobs_email :: json where
  "carol_takes_bobs_email =
     user_event ''user.created'' ''user_3'' ''bob@example.com'' ''carol'' ''https://img.example.com/3.png''"


definition chess_text :: string where
  \<open>chess_text = ''{"title": "Chess", "players": 2}''\<close>

definition go_text :: string where
  \<open>go_text = ''{"title": "Go", "__comment__": "go"}''\<close>

definition chess_data :: "string \<Rightarrow> json option" where
  "chess_data = [''title'' \<mapsto> JStr ''Chess'', ''players'' \<mapsto> JInt 2]"

definition go_data :: "string \<Rightarrow> json option" where
  "go_data = [''title'' \<mapsto> JStr ''Go'', ''__comment__'' \<mapsto> JStr ''go'']"

definition one_game :: world where
  "one_game =
     \<lparr>users = [],
      files = \<lparr>rglob_data_json = [''games/chess/data.json''],
               path_exists = (\<lambda>path. if 273 < length path then Inl OSError
                                      else Inr (path = ''./games/chess/data.json'')),
               read_text = (\<lambda>path. if path = ''games/chess/data.json''
                                         \<or> path = ''./games/chess/data.json''
                                      then Inr chess_text
                                      else Inl OSError)\<rparr>\<rparr>"

definition two_games :: world where
  "two_games =
     \<lparr>users = [],
      files = \<lparr>rglob_data_json = [''games/chess/data.json'', ''games/go/data.json''],
               path_exists = (\<lambda>path. if 273 < length path then Inl OSError
                                      else Inr (path = ''./games/chess/data.json''
                                                \<or> path = ''./games/go/data.json'')),
               read_text = (\<lambda>path. if path = ''games/chess/data.json''
                                         \<or> path = ''./games/chess/data.json''
                                      then Inr chess_text
                                      else if path = ''games/go/data.json''
                                         \<or> path = ''./games/go/data.json''
                                      then Inr go_text
                                      else Inl OSError)\<rparr>\<rparr>"

definition example_loads :: "string \<Rightarrow> error + json" where
  "example_loads data =
     (if data = chess_text
      then Inr (JObj chess_data)
      else if data = go_text
      then Inr (JObj go_data)
      else Inl JSONDecodeError)"

definition no_update_iter ::
  "(string \<Rightarrow> json option) \<Rightarrow> json \<Rightarrow> error + (string \<Rightarrow> json option)" where
  "no_update_iter combined v = Inl TypeError"

section \<open>Rejected signatures\<close>

lemma signed_ok:
  "example_verify p (body signed_request) (svix_headers_of signed_request) = Inr p"
  by (simp add: example_verify_def signed_request_def svix_headers_of_def)






section \<open>Events without an id\<close>

lemma in_user_events_iff:
  "in_user_events v \<longleftrightarrow> v = JStr ''user.created'' \<or> v = JStr ''user.updated''"
  by (cases v) auto

lemma handle_webhook_verified:
  assumes "verify (body req) (svix_headers_of req) = Inr json_payload"
  shows "handle_webhook verify coerce req w =
     (case py_get json_payload ''type'' JNull of Inl e \<Rightarrow> (Inl e, w) | Inr event_type \<Rightarrow>
      case user_data_of json_payload of Inl e \<Rightarrow> (Inl e, w) | Inr user_data \<Rightarrow>
      if event_type = JStr ''user.created'' \<or> event_type = JStr ''user.updated''
      then (case upsert_user coerce user_data (users w) of
              Inl e \<Rightarrow> (Inl e, w)
            | Inr rows \<Rightarrow> (Inr success, w\<lparr>users := rows\<rparr>))
      else (Inr success, w))"
  using assms by (simp add: handle_webhook_def in_user_events_iff split: sum.splits)

lemma user_data_of_object:
  "user_data_of (JObj p) =
     (case p ''data'' of None \<Rightarrow> Inr (JObj Map.empty) | Some d \<Rightarrow> py_get d ''object'' (JObj Map.empty))"
  by (simp add: user_data_of_def split: option.splits)

lemma py_get_error: "py_get v k dflt = Inl e \<Longrightarrow> e = AttributeError"
  by (cases v) auto

lemma py_index0_error: "py_index0 v = Inl e \<Longrightarrow> e \<in> {TypeError, IndexError, KeyError}"
  by (cases v) (auto split: list.splits)

lemma py_item_error: "py_item v k = Inl e \<Longrightarrow> e \<in> {TypeError, KeyError}"
  by (cases v) (auto split: option.splits)

lemma first_email_error:
  "first_email ud = Inl e \<Longrightarrow> e \<in> {AttributeError, TypeError, IndexError, KeyError}"
  by (auto simp add: first_email_def split: sum.splits
           dest: py_get_error py_index0_error py_item_error)

lemma bind_param_error: "bind_param coerce v = Inl e \<Longrightarrow> e = DBAPIError"
  by (auto simp add: bind_param_def split: json.splits option.splits)

lemma column_values_error:
  "column_values coerce ud = Inl e
     \<Longrightarrow> e \<in> {AttributeError, TypeError, IndexError, KeyError, DBAPIError}"
  unfolding column_values_def
  by (auto split: sum.splits dest!: py_get_error first_email_error bind_param_error)

lemma column_values_id:
  assumes "column_values coerce ud = Inr (k, e, n, p)"
  shows "\<exists>v. py_get ud ''id'' JNull = Inr v \<and> bind_param coerce v = Inr k"
  using assms unfolding column_values_def by (auto split: sum.splits)

lemma upsert_user_no_id:
  assumes "\<And>obj. ud = JObj obj \<Longrightarrow> obj ''id'' = None"
  shows "\<exists>e. upsert_user coerce ud rows = Inl e
           \<and> e \<in> {AttributeError, TypeError, IndexError, KeyError, DBAPIError, IntegrityError}"
proof (cases "column_values coerce ud")
  case (Inl e)
  then show ?thesis
    using column_values_error [OF Inl] by (auto simp add: upsert_user_def)
next
  case (Inr t)
  obtain k e n p where t: "t = (k, e, n, p)" by (cases t) auto
  from Inr t column_values_id obtain v where
    v: "py_get ud ''id'' JNull = Inr v" "bind_param coerce v = Inr k" by blast
  from v(1) assms have "v = JNull" by (cases ud) auto
  with v(2) have "k = None" by (simp add: bind_param_def)
  with Inr t show ?thesis
    by (simp add: upsert_user_def query_first_def commit_insert_def)
qed

text \<open>
  C5. A validly signed \<^verbatim>\<open>user.created\<close> or \<^verbatim>\<open>user.updated\<close> event whose
  \<^verbatim>\<open>data.object\<close> has no \<^verbatim>\<open>id\<close> is rejected: the handler ends with an uncaught
  exception (status 500), at the latest the \<^verbatim>\<open>IntegrityError\<close> of the commit, which
  refuses a row whose primary key is \<^verbatim>\<open>NULL\<close>; no row is inserted and the state is
  the one before the request.
\<close>

theorem missing_id_rejected:
  assumes "verify (body req) (svix_headers_of req) = Inr json_payload"
    and "py_get json_payload ''type'' JNull = Inr (JStr ''user.created'')
         \<or> py_get json_payload ''type'' JNull = Inr (JStr ''user.updated'')"
    and "\<And>obj. user_data_of json_payload = Inr (JObj obj) \<Longrightarrow> obj ''id'' = None"
  shows "fst (handle_webhook verify coerce req w)
           \<in> Inl ` {AttributeError, TypeError, IndexError, KeyError, DBAPIError, IntegrityError}
         \<and> status_code (fst (handle_webhook verify coerce req w)) = 500
         \<and> snd (handle_webhook verify coerce req w) = w"
proof (cases "user_data_of json_payload")
  case (Inl e)
  then have "e = AttributeError"
    by (auto simp add: user_data_of_def split: sum.splits dest: py_get_error)
  with Inl assms(1,2) show ?thesis
    by (auto simp add: handle_webhook_verified)
next
  case (Inr ud)
  with assms(3) have "\<And>obj. ud = JObj obj \<Longrightarrow> obj ''id'' = None" by simp
  then have "\<exists>e. upsert_user coerce ud (users w) = Inl e
           \<and> e \<in> {AttributeError, TypeError, IndexError, KeyError, DBAPIError, IntegrityError}"
    by (rule upsert_user_no_id)
  then obtain e where
    "upsert_user coerce ud (users w) = Inl e"
    "e \<in> {AttributeError, TypeError, IndexError, KeyError, DBAPIError, IntegrityError}"
    by blast
  with Inr assms(1,2) show ?thesis
    by (auto simp add: handle_webhook_verified)
qed

theorem missing_id_rejected_witness:
  "example_verify no_id_event (body signed_request) (svix_headers_of signed_request)
     = Inr no_id_event
   \<and> py_get no_id_event ''type'' JNull = Inr (JStr ''user.created'')
   \<and> py_get no_id_event ''data'' JNull
       = Inr (user_object (JObj
              [''email_addresses'' \<mapsto> JArr [JObj [''email_address'' \<mapsto> JStr ''dave@example.com'']],
               ''username'' \<mapsto> JStr ''dave'']))
   \<and> fst (handle_webhook (example_verify no_id_event) strict_driver signed_request two_users)
       = Inl IntegrityError
   \<and> status_code (fst (handle_webhook (example_verify no_id_event) strict_driver
                         signed_request two_users)) = 500
   \<and> snd (handle_webhook (example_verify no_id_event) strict_driver signed_request two_users)
       = two_users"
proof -
  have "fst (handle_webhook (example_verify no_id_event) strict_driver signed_request two_users)
           \<in> Inl ` {AttributeError, TypeError, IndexError, KeyError, DBAPIError, IntegrityError}
         \<and> status_code (fst (handle_webhook (example_verify no_id_event) strict_driver
                               signed_request two_users)) = 500
         \<and> snd (handle_webhook (example_verify no_id_event) strict_driver signed_request
                  two_users) = two_users"
  proof (rule missing_id_rejected [of _ _ no_id_event])
    show "example_verify no_id_event (body signed_request) (svix_headers_of signed_request)
            = Inr no_id_event"
      by (rule signed_ok)
    show "py_get no_id_event ''type'' JNull = Inr (JStr ''user.created'')
          \<or> py_get no_id_event ''type'' JNull = Inr (JStr ''user.updated'')"
      by (simp add: no_id_event_def)
    show "obj ''id'' = None" if "user_data_of no_id_event = Inr (JObj obj)" for obj
      using that by (auto simp add: no_id_event_def user_data_of_def user_object_def)
  qed
  moreover have "handle_webhook (example_verify no_id_event) strict_driver signed_request
                   two_users = (Inl IntegrityError, two_users)"
    by (simp add: handle_webhook_def signed_ok no_id_event_def user_data_of_def
          user_object_def upsert_user_def column_values_def first_email_def bind_param_def
          query_first_def commit_insert_def)
  ultimately show ?thesis
    by (simp add: signed_ok no_id_event_def)
qed

section \<open>Other event types\<close>

text \<open>
  C9, amended. A validly signed event whose \<^verbatim>\<open>type\<close> is neither \<^verbatim>\<open>user.created\<close>
  nor \<^verbatim>\<open>user.updated\<close> never changes the state. It is answered with
  \<^verbatim>\<open>{"status": "success"}\<close> when the body is a JSON object whose \<^verbatim>\<open>data\<close> member
  is absent or itself a JSON object.
\<close>

theorem other_event_is_noop:
  assumes "verify (body req) (svix_headers_of req) = Inr json_payload"
    and "py_get json_payload ''type'' JNull \<noteq> Inr (JStr ''user.created'')"
    and "py_get json_payload ''type'' JNull \<noteq> Inr (JStr ''user.updated'')"
  shows "snd (handle_webhook verify coerce req w) = w
         \<and> (json_payload = JObj p \<and> (p ''data'' = None \<or> p ''data'' = Some (JObj d))
              \<longrightarrow> handle_webhook verify coerce req w = (Inr success, w))"
  using assms
  by (auto simp add: handle_webhook_verified user_data_of_object split: sum.splits option.splits)

theorem other_event_is_noop_witness:
  "example_verify ping_event (body signed_request) (svix_headers_of signed_request)
     = Inr ping_event
   \<and> py_get ping_event ''type'' JNull = Inr (JStr ''session.created'')
   \<and> handle_webhook (example_verify ping_event) strict_driver signed_request two_users
       = (Inr success, two_users)"
proof -
  have a: "py_get ping_event ''type'' JNull \<noteq> Inr (JStr ''user.created'')"
    and b: "py_get ping_event ''type'' JNull \<noteq> Inr (JStr ''user.updated'')"
    by (simp_all add: ping_event_def)
  show ?thesis
    using other_event_is_noop
            [of "example_verify ping_event" signed_request ping_event strict_driver two_users
                "[''type'' \<mapsto> JStr ''session.created'']" "Map.empty",
             OF signed_ok [of ping_event] a b]
    by (simp add: signed_ok ping_event_def)
qed

text \<open>
  The claim as stated fails: \<^verbatim>\<open>data\<close> is read before the type is looked at, so the
  event \<^verbatim>\<open>{"type": "session.created", "data": null}\<close> ends in \<^verbatim>\<open>AttributeError\<close>.
\<close>

theorem other_event_null_data_fails:
  "example_verify null_data_event (body signed_request) (svix_headers_of signed_request)
     = Inr null_data_event
   \<and> py_get null_data_event ''type'' JNull = Inr (JStr ''session.created'')
   \<and> handle_webhook (example_verify null_data_event) strict_driver signed_request two_users
       = (Inl AttributeError, two_users)
   \<and> status_code (fst (handle_webhook (example_verify null_data_event) strict_driver
                         signed_request two_users)) = 500"
  by (simp add: handle_webhook_def signed_ok null_data_event_def user_data_of_def)

section \<open>The first e-mail address\<close>

text \<open>
  C4. The handler does not guard the index: with \<^verbatim>\<open>email_addresses\<close> absent the
  request ends in an uncaught \<^verbatim>\<open>TypeError\<close>, with the empty array in an uncaught
  \<^verbatim>\<open>IndexError\<close>; the state is unchanged in both cases.
\<close>

theorem unguarded_email_index:
  assumes "verify (body req) (svix_headers_of req) = Inr json_payload"
    and "py_get json_payload ''type'' JNull = Inr (JStr ''user.created'')
         \<or> py_get json_payload ''type'' JNull = Inr (JStr ''user.updated'')"
    and "user_data_of json_payload = Inr (JObj obj)"
  shows "(obj ''email_addresses'' = None
            \<longrightarrow> handle_webhook verify coerce req w = (Inl TypeError, w))
         \<and> (obj ''email_addresses'' = Some (JArr [])
            \<longrightarrow> handle_webhook verify coerce req w = (Inl IndexError, w))"
  using assms
  by (auto simp add: handle_webhook_verified upsert_user_def column_values_def first_email_def)

theorem unguarded_email_index_witness:
  "example_verify no_email_event (body signed_request) (svix_headers_of signed_request)
     = Inr no_email_event
   \<and> handle_webhook (example_verify no_email_event) strict_driver signed_request two_users
       = (Inl IndexError, two_users)
   \<and> status_code (fst (handle_webhook (example_verify no_email_event) strict_driver
                         signed_request two_users)) = 500"
proof -
  have t: "py_get no_email_event ''type'' JNull = Inr (JStr ''user.created'')
           \<or> py_get no_email_event ''type'' JNull = Inr (JStr ''user.updated'')"
    by (simp add: no_email_event_def)
  have u: "user_data_of no_email_event
             = Inr (JObj [''id'' \<mapsto> JStr ''user_4'', ''email_addresses'' \<mapsto> JArr []])"
    by (simp add: no_email_event_def user_data_of_def user_object_def)
  show ?thesis
    using unguarded_email_index
            [of "example_verify no_email_event" signed_request no_email_event _
                strict_driver two_users, OF signed_ok [of no_email_event] t u]
    by (simp add: signed_ok)
qed


section \<open>One row per id\<close>

lemma find_id_member:
  "i \<in> set (map id_col rows) \<Longrightarrow> \<exists>u. find (\<lambda>u. id_col u = i) rows = Some u \<and> id_col u = i"
  by (induction rows) auto

lemma find_id_none:
  "find (\<lambda>u. id_col u = i) rows = None \<longleftrightarrow> i \<notin> set (map id_col rows)"
  by (induction rows) auto

lemma find_id_Some: "find (\<lambda>u. id_col u = i) rows = Some u \<Longrightarrow> id_col u = i \<and> u \<in> set rows"
  by (induction rows) (auto split: if_splits)

lemma commit_update_ids:
  "commit_update rows i e n p = Inr rows' \<Longrightarrow> map id_col rows' = map id_col rows"
  by (auto simp add: commit_update_def split: if_splits)

lemma commit_insert_ids:
  "commit_insert rows k e n p = Inr rows'
     \<Longrightarrow> \<exists>i. k = Some i \<and> map id_col rows' = map id_col rows @ [i]"
  by (auto simp add: commit_insert_def split: option.splits if_splits)

text \<open>
  A row is added only after the query found none with its id, so the id is new.
\<close>

lemma upsert_user_ids:
  assumes "upsert_user coerce ud rows = Inr rows'"
  shows "map id_col rows' = map id_col rows
         \<or> (\<exists>i. i \<notin> set (map id_col rows) \<and> map id_col rows' = map id_col rows @ [i])"
proof -
  from assms obtain k e n p where
    r: "(case query_first rows k of
           Some db_user \<Rightarrow> commit_update rows (id_col db_user) e n p
         | None \<Rightarrow> commit_insert rows k e n p) = Inr rows'"
    by (auto simp add: upsert_user_def split: sum.splits prod.splits)
  show ?thesis
  proof (cases "query_first rows k")
    case (Some db_user)
    with r show ?thesis by (auto dest: commit_update_ids)
  next
    case None
    with r obtain i where i: "k = Some i" "map id_col rows' = map id_col rows @ [i]"
      by (auto dest: commit_insert_ids)
    from None i(1) have "i \<notin> set (map id_col rows)"
      using find_id_none [of i rows] by (simp add: query_first_def)
    with i(2) show ?thesis by blast
  qed
qed

lemma handle_webhook_state:
  "snd (handle_webhook verify coerce req w) = w
   \<or> (\<exists>ud rows. upsert_user coerce ud (users w) = Inr rows
          \<and> snd (handle_webhook verify coerce req w) = w\<lparr>users := rows\<rparr>)"
  by (auto simp add: handle_webhook_def split: sum.splits error.splits)

lemma handle_webhook_distinct:
  assumes "distinct (map id_col (users w))"
  shows "distinct (map id_col (users (snd (handle_webhook verify coerce req w))))"
  using handle_webhook_state [of verify coerce req w] assms
  by (auto dest!: upsert_user_ids)

lemma run_webhooks_distinct:
  "distinct (map id_col (users w))
     \<Longrightarrow> distinct (map id_col (users (run_webhooks verify coerce reqs w)))"
  by (induction reqs arbitrary: w) (auto intro: handle_webhook_distinct)

lemma upsert_user_existing:
  assumes "py_get ud ''id'' JNull = Inr (JStr i)" and "i \<in> set (map id_col rows)"
  shows "upsert_user coerce ud rows =
           (case column_values coerce ud of
              Inl e \<Rightarrow> Inl e
            | Inr (k, e, n, p) \<Rightarrow> commit_update rows i e n p)"
proof (cases "column_values coerce ud")
  case (Inl e)
  then show ?thesis by (simp add: upsert_user_def)
next
  case (Inr t)
  obtain k e n p where t: "t = (k, e, n, p)" by (cases t) auto
  from Inr t column_values_id obtain v where
    "py_get ud ''id'' JNull = Inr v" "bind_param coerce v = Inr k" by blast
  with assms(1) have k: "k = Some i" by (simp add: bind_param_def)
  from find_id_member [OF assms(2)] obtain u where
    "find (\<lambda>u. id_col u = i) rows = Some u" "id_col u = i" by blast
  with Inr t k show ?thesis by (simp add: upsert_user_def query_first_def)
qed

text \<open>
  C2, amended. A \<^verbatim>\<open>user.updated\<close> event whose \<^verbatim>\<open>id\<close> is the id of an existing row
  never adds a row: the id column is the same before and after. When the event's values
  bind to the columns and no other row holds its address, the handler succeeds and the
  table is the old one with email, username and picture of the rows with that id
  overwritten in place. Whatever the requests are, a table with at most one row per id
  still has at most one row per id after them.
\<close>

theorem update_overwrites_in_place:
  assumes "verify (body req) (svix_headers_of req) = Inr json_payload"
    and "py_get json_payload ''type'' JNull = Inr (JStr ''user.updated'')"
    and "user_data_of json_payload = Inr user_data"
    and "py_get user_data ''id'' JNull = Inr (JStr i)"
    and "i \<in> set (map id_col (users w))"
  shows "map id_col (users (snd (handle_webhook verify coerce req w))) = map id_col (users w)
         \<and> (column_values coerce user_data = Inr (k, e, n, p) \<and> \<not> email_taken (users w) i e
              \<longrightarrow> handle_webhook verify coerce req w
                    = (Inr success,
                       w\<lparr>users := map (\<lambda>u. if id_col u = i
                                             then u\<lparr>email := e, username := n,
                                                    profile_picture_url := p\<rparr>
                                             else u) (users w)\<rparr>))
         \<and> (distinct (map id_col (users w))
              \<longrightarrow> distinct (map id_col (users (run_webhooks verify coerce reqs w))))"
proof -
  have h: "handle_webhook verify coerce req w =
             (case upsert_user coerce user_data (users w) of
                Inl e \<Rightarrow> (Inl e, w)
              | Inr rows \<Rightarrow> (Inr success, w\<lparr>users := rows\<rparr>))"
    using assms(1-3) by (simp add: handle_webhook_verified)
  have u: "upsert_user coerce user_data (users w) =
             (case column_values coerce user_data of
                Inl e \<Rightarrow> Inl e
              | Inr (k, e, n, p) \<Rightarrow> commit_update (users w) i e n p)"
    using assms(4,5) by (rule upsert_user_existing)
  have "map id_col (users (snd (handle_webhook verify coerce req w))) = map id_col (users w)"
    by (auto simp add: h u split: sum.splits prod.splits dest: commit_update_ids)
  moreover have "handle_webhook verify coerce req w
                    = (Inr success,
                       w\<lparr>users := map (\<lambda>u. if id_col u = i
                                             then u\<lparr>email := e, username := n,
                                                    profile_picture_url := p\<rparr>
                                             else u) (users w)\<rparr>)"
    if "column_values coerce user_data = Inr (k, e, n, p)" "\<not> email_taken (users w) i e"
    using that by (simp add: h u commit_update_def)
  ultimately show ?thesis
    by (simp add: run_webhooks_distinct)
qed

lemma two_users_simps:
  "users two_users = [alice, bob]" "files two_users = no_files"
  by (simp_all add: two_users_def)

lemma user_event_simps:
  "py_get (user_event t i e n p) ''type'' JNull = Inr (JStr t)"
  "user_data_of (user_event t i e n p) = Inr (user_fields i e n p)"
  by (simp_all add: user_event_def user_data_of_def user_object_def)

lemma user_fields_simps:
  "py_get (user_fields i e n p) ''id'' JNull = Inr (JStr i)"
  "column_values coerce (user_fields i e n p) = Inr (Some i, Some e, Some n, Some p)"
  by (simp_all add: user_fields_def column_values_def first_email_def bind_param_def)

theorem update_overwrites_in_place_witness:
  "example_verify alice_updated (body signed_request) (svix_headers_of signed_request)
     = Inr alice_updated
   \<and> py_get alice_updated ''type'' JNull = Inr (JStr ''user.updated'')
   \<and> ''user_1'' \<in> set (map id_col (users two_users))
   \<and> handle_webhook (example_verify alice_updated) strict_driver signed_request two_users
       = (Inr success,
          two_users\<lparr>users :=
            [\<lparr>id_col = ''user_1'', email = Some ''alice@example.org'',
              username = Some ''alice2'',
              profile_picture_url = Some ''https://img.example.com/1.png''\<rparr>, bob]\<rparr>)
   \<and> distinct (map id_col (users (run_webhooks (example_verify alice_updated) strict_driver
                                     [signed_request, forged_request, signed_request] two_users)))"
proof -
  have m: "''user_1'' \<in> set (map id_col (users two_users))"
    and d: "distinct (map id_col (users two_users))"
    by (simp_all add: two_users_simps alice_def bob_def)
  have f: "\<not> email_taken (users two_users) ''user_1'' (Some ''alice@example.org'')"
    by (simp add: email_taken_def two_users_simps alice_def bob_def)
  have t: "py_get alice_updated ''type'' JNull = Inr (JStr ''user.updated'')"
    and u: "user_data_of alice_updated
              = Inr (user_fields ''user_1'' ''alice@example.org'' ''alice2''
                       ''https://img.example.com/1.png'')"
    by (simp_all add: alice_updated_def user_event_simps)
  show ?thesis
    using update_overwrites_in_place
            [where verify = "example_verify alice_updated" and req = signed_request
               and json_payload = alice_updated and w = two_users and coerce = strict_driver
               and i = "''user_1''" and k = "Some ''user_1''"
               and e = "Some ''alice@example.org''" and n = "Some ''alice2''"
               and p = "Some ''https://img.example.com/1.png''"
               and reqs = "[signed_request, forged_request, signed_request]",
             OF signed_ok t u user_fields_simps(1) m]
          m d f t
    by (simp add: signed_ok user_fields_simps two_users_simps alice_def bob_def
          del: run_webhooks.simps)
qed

text \<open>
  The claim as stated fails: an update that gives the row an address another row holds
  is refused by the unique index on \<^verbatim>\<open>email\<close>, and the row keeps its old values.
\<close>

theorem update_refused_when_email_taken:
  "example_verify alice_takes_bobs_email (body signed_request) (svix_headers_of signed_request)
     = Inr alice_takes_bobs_email
   \<and> py_get alice_takes_bobs_email ''type'' JNull = Inr (JStr ''user.updated'')
   \<and> ''user_1'' \<in> set (map id_col (users two_users))
   \<and> handle_webhook (example_verify alice_takes_bobs_email) strict_driver signed_request
        two_users
       = (Inl IntegrityError, two_users)
   \<and> get_user_data ''user_1''
        (snd (handle_webhook (example_verify alice_takes_bobs_email) strict_driver
                signed_request two_users))
       = (Inr (user_json alice), two_users)
   \<and> email alice = Some ''alice@example.com''"
proof -
  have h: "handle_webhook (example_verify alice_takes_bobs_email) strict_driver signed_request
             two_users = (Inl IntegrityError, two_users)"
    by (simp add: handle_webhook_def signed_ok alice_takes_bobs_email_def user_event_simps
          upsert_user_def user_fields_simps query_first_def commit_update_def email_taken_def
          two_users_simps alice_def bob_def)
  show ?thesis
    by (simp add: h signed_ok get_user_data_def two_users_simps)
      (simp add: alice_takes_bobs_email_def user_event_simps alice_def)
qed

section \<open>A created user can be looked up\<close>

lemma find_id_map:
  assumes "\<And>u. id_col (f u) = id_col u" and "find (\<lambda>u. id_col u = i) rows = Some u"
  shows "find (\<lambda>u. id_col u = i) (map f rows) = Some (f u)"
  using assms(2) by (induction rows) (auto simp add: assms(1) split: if_splits)

lemma find_id_append_new:
  assumes "i \<notin> set (map id_col rows)" and "id_col u = i"
  shows "find (\<lambda>u. id_col u = i) (rows @ [u]) = Some u"
  using assms by (induction rows) auto

lemma upsert_user_insert:
  assumes "column_values coerce ud = Inr (Some i, e, n, p)"
    and "\<not> email_taken rows i e" "find (\<lambda>u. id_col u = i) rows = None" "i \<notin> set (map id_col rows)"
  shows "upsert_user coerce ud rows
                   = Inr (rows @ [\<lparr>id_col = i, email = e, username = n,
                                    profile_picture_url = p\<rparr>])"
    using assms
    by (simp add: upsert_user_def query_first_def commit_insert_def)


lemma upsert_user_update:
  assumes "column_values coerce ud = Inr (Some i, e, n, p)"
    and "\<not> email_taken rows i e" "find (\<lambda>u. id_col u = i) rows = Some u" "id_col u = i"
  shows "upsert_user coerce ud rows = Inr (map (\<lambda>u. if id_col u = i
                 then u\<lparr>email := e, username := n, profile_picture_url := p\<rparr> else u) rows)"
    using assms by (simp add: upsert_user_def query_first_def commit_update_def)


lemma upsert_user_lookup:
  assumes "column_values coerce ud = Inr (Some i, e, n, p)"
    and "\<not> email_taken rows i e"
  shows "\<exists>rows' u. upsert_user coerce ud rows = Inr rows'
           \<and> find (\<lambda>u. id_col u = i) rows' = Some u
           \<and> id_col u = i \<and> email u = e \<and> username u = n \<and> profile_picture_url u = p"
proof (cases "find (\<lambda>u. id_col u = i) rows")
  case None
  let ?u = "\<lparr>id_col = i, email = e, username = n, profile_picture_url = p\<rparr>"
  from None have m: "i \<notin> set (map id_col rows)" by (simp add: find_id_none)
  have "id_col ?u = i" by simp
  with m have f: "find (\<lambda>u. id_col u = i) (rows @ [?u]) = Some ?u"
    by (rule find_id_append_new)
  have r: "upsert_user coerce ud rows = Inr (rows @ [?u])"
    using assms None m by (rule upsert_user_insert)
  show ?thesis
  proof (intro exI conjI)
    show "upsert_user coerce ud rows = Inr (rows @ [?u])" by (fact r)
    show "find (\<lambda>u. id_col u = i) (rows @ [?u]) = Some ?u" by (fact f)
  qed simp_all
next
  case (Some u)
  then have i: "id_col u = i" by (rule find_id_Some [THEN conjunct1])
  let ?f = "\<lambda>u. if id_col u = i
                 then u\<lparr>email := e, username := n, profile_picture_url := p\<rparr> else u"
  have "\<And>v. id_col (?f v) = id_col v" by simp
  then have f: "find (\<lambda>u. id_col u = i) (map ?f rows) = Some (?f u)"
    using Some by (rule find_id_map)
  have r: "upsert_user coerce ud rows = Inr (map ?f rows)"
    using assms Some i by (rule upsert_user_update)
  show ?thesis
  proof (intro exI conjI)
    show "upsert_user coerce ud rows = Inr (map ?f rows)" by (fact r)
    show "find (\<lambda>u. id_col u = i) (map ?f rows) = Some (?f u)" by (fact f)
  qed (simp_all add: i)
qed


text \<open>
  C3, amended. A validly signed \<^verbatim>\<open>user.created\<close> event carrying id, e-mail
  address, username and picture URL, whose address no row with another id holds, is
  answered with success, and the lookup of the same id afterwards returns the submitted
  address, username and picture URL.
\<close>

theorem created_then_lookup:
  assumes "verify (body req) (svix_headers_of req) = Inr (JObj payload)"
    and "payload ''type'' = Some (JStr ''user.created'')"
    and "payload ''data'' = Some (JObj d)"
    and "d ''object'' = Some (JObj obj)"
    and "obj ''id'' = Some (JStr i)"
    and "obj ''email_addresses'' = Some (JArr (JObj a # others))"
    and "a ''email_address'' = Some (JStr e)"
    and "obj ''username'' = Some (JStr n)"
    and "obj ''profile_image_url'' = Some (JStr p)"
    and "\<not> email_taken (users w) i (Some e)"
  shows "fst (handle_webhook verify coerce req w) = Inr success
         \<and> fst (get_user_data i (snd (handle_webhook verify coerce req w)))
             = Inr (JObj [''id'' \<mapsto> JStr i, ''email'' \<mapsto> JStr e, ''username'' \<mapsto> JStr n,
                          ''profile_picture_url'' \<mapsto> JStr p])"
proof -
  have c: "column_values coerce (JObj obj) = Inr (Some i, Some e, Some n, Some p)"
    using assms(5-9) by (simp add: column_values_def first_email_def bind_param_def)
  from upsert_user_lookup [OF c assms(10)] obtain rows' u where
    r: "upsert_user coerce (JObj obj) (users w) = Inr rows'"
       "find (\<lambda>u. id_col u = i) rows' = Some u"
       "id_col u = i" "email u = Some e" "username u = Some n"
       "profile_picture_url u = Some p"
    by blast
  have h: "handle_webhook verify coerce req w = (Inr success, w\<lparr>users := rows'\<rparr>)"
    using assms(1-4) r(1)
    by (simp add: handle_webhook_verified user_data_of_object)
  show ?thesis
    using r(2-6) by (simp add: h get_user_data_def user_json_def nullable_def)
qed

theorem created_then_lookup_witness:
  "example_verify carol_created (body signed_request) (svix_headers_of signed_request)
     = Inr carol_created
   \<and> \<not> email_taken (users two_users) ''user_3'' (Some ''carol@example.com'')
   \<and> fst (handle_webhook (example_verify carol_created) strict_driver signed_request two_users)
       = Inr success
   \<and> fst (get_user_data ''user_3''
             (snd (handle_webhook (example_verify carol_created) strict_driver signed_request
                     two_users)))
       = Inr (JObj [''id'' \<mapsto> JStr ''user_3'', ''email'' \<mapsto> JStr ''carol@example.com'',
                    ''username'' \<mapsto> JStr ''carol'',
                    ''profile_picture_url'' \<mapsto> JStr ''https://img.example.com/3.png''])"
proof -
  have f: "\<not> email_taken (users two_users) ''user_3'' (Some ''carol@example.com'')"
    by (simp add: email_taken_def two_users_simps alice_def bob_def)
  have v: "example_verify carol_created (body signed_request) (svix_headers_of signed_request)
             = Inr (JObj [''type'' \<mapsto> JStr ''user.created'',
                          ''data'' \<mapsto> user_object (user_fields ''user_3'' ''carol@example.com''
                                                  ''carol'' ''https://img.example.com/3.png'')])"
    by (simp add: signed_ok carol_created_def user_event_def)
  show ?thesis
    using created_then_lookup
            [where verify = "example_verify carol_created" and req = signed_request
               and w = two_users and coerce = strict_driver
               and d = "[''object'' \<mapsto> user_fields ''user_3'' ''carol@example.com''
                                        ''carol'' ''https://img.example.com/3.png'']"
               and a = "[''email_address'' \<mapsto> JStr ''carol@example.com'']"
               and others = "[]"
               and i = "''user_3''" and e = "''carol@example.com''" and n = "''carol''"
               and p = "''https://img.example.com/3.png''",
             OF v _ _ _ _ _ _ _ _ f]
          f
    by (simp add: signed_ok user_object_def user_fields_def)
qed

text \<open>
  The claim as stated fails: when another row holds the submitted address the commit is
  refused, and the lookup of the new id finds nothing.
\<close>

theorem created_refused_when_email_taken:
  "example_verify carol_takes_bobs_email (body signed_request) (svix_headers_of signed_request)
     = Inr carol_takes_bobs_email
   \<and> carol_takes_bobs_email
       = user_event ''user.created'' ''user_3'' ''bob@example.com'' ''carol''
           ''https://img.example.com/3.png''
   \<and> handle_webhook (example_verify carol_takes_bobs_email) strict_driver signed_request
        two_users
       = (Inl IntegrityError, two_users)
   \<and> get_user_data ''user_3''
        (snd (handle_webhook (example_verify carol_takes_bobs_email) strict_driver
                signed_request two_users))
       = (Inl (HTTPException 404 ''User not found''), two_users)"
proof -
  have h: "handle_webhook (example_verify carol_takes_bobs_email) strict_driver signed_request
             two_users = (Inl IntegrityError, two_users)"
    by (simp add: handle_webhook_def signed_ok carol_takes_bobs_email_def user_event_simps
          upsert_user_def user_fields_simps query_first_def commit_insert_def email_taken_def
          two_users_simps alice_def bob_def)
  show ?thesis
    by (simp add: h signed_ok get_user_data_def two_users_simps alice_def bob_def)
      (simp add: carol_takes_bobs_email_def)
qed

section \<open>The combined listing and the single game\<close>

lemma merge_files_objects:
  assumes "list_all2 (\<lambda>json_file d. \<exists>data. read_text fs json_file = Inr data
                                       \<and> loads data = Inr (JObj d)) paths ds"
  shows "merge_files loads update_iter fs paths combined = Inr (foldl (++) combined ds)"
  using assms
  by (induction paths ds arbitrary: combined rule: list_all2_induct)
     (auto simp add: dict_update_def)

lemma foldl_map_add_last:
  assumes "d k = Some v" and "\<forall>d'\<in>set after. d' k = None"
  shows "foldl (++) combined (before @ d # after) k = Some v"
proof -
  have "foldl (++) m after k = m k" if "\<forall>d'\<in>set after. d' k = None" for m
    using that by (induction after arbitrary: m) (auto simp add: map_add_def)
  with assms show ?thesis by (simp add: map_add_def)
qed

lemma foldl_map_add_none:
  assumes "\<forall>d\<in>set ds. d k = None"
  shows "foldl (++) combined ds k = combined k"
  using assms by (induction ds arbitrary: combined) (auto simp add: map_add_def)

text \<open>
  C6. When every path the traversal yields reads and parses as a JSON object, the
  combined listing is the dictionary that starts as the \<^verbatim>\<open>__comment__\<close> marker and is
  updated with the objects \<open>ds\<close> of the files in traversal order, and the state is
  unchanged. On a key collision the later file wins: the value of a key is the one given
  by the last file that defines it (with two directories that both define \<^verbatim>\<open>title\<close>,
  the title merged last); a key no file defines is as in the seed.
\<close>

theorem combined_is_ordered_merge:
  assumes "list_all2 (\<lambda>json_file d. \<exists>data. read_text (files w) json_file = Inr data
                                       \<and> loads data = Inr (JObj d))
             (rglob_data_json (files w)) ds"
  shows "get_combined_json loads update_iter w
           = (Inr (JObj (foldl (++) [''__comment__'' \<mapsto> JStr ''Combined data''] ds)), w)
         \<and> (ds = before @ d # after \<and> d k = Some v \<and> (\<forall>d'\<in>set after. d' k = None)
              \<longrightarrow> foldl (++) [''__comment__'' \<mapsto> JStr ''Combined data''] ds k = Some v)
         \<and> ((\<forall>d\<in>set ds. d k' = None)
              \<longrightarrow> foldl (++) [''__comment__'' \<mapsto> JStr ''Combined data''] ds k'
                    = [''__comment__'' \<mapsto> JStr ''Combined data''] k')
         \<and> (ds = [d1, d2] \<and> d1 ''title'' = Some t1 \<and> d2 ''title'' = Some t2
              \<longrightarrow> response_key (fst (get_combined_json loads update_iter w)) ''title''
                      = Some t2
                  \<and> response_key (fst (get_combined_json loads update_iter w)) ''__comment__''
                      \<noteq> None)"
  using merge_files_objects [OF assms]
  by (auto simp add: get_combined_json_def foldl_map_add_last foldl_map_add_none
           response_key_def map_add_def
           simp del: foldl_append split: option.splits)

text \<open>
  C10. The marker is put in before the merge. Under the hypothesis of C6 the key
  \<^verbatim>\<open>__comment__\<close> is always in the returned object; when a file defines it, its value
  is the one of the last such file in traversal order, and it is the fixed string
  \<^verbatim>\<open>Combined data\<close> only when no file defines it.
\<close>

theorem comment_marker_overridable:
  assumes "list_all2 (\<lambda>json_file d. \<exists>data. read_text (files w) json_file = Inr data
                                       \<and> loads data = Inr (JObj d))
             (rglob_data_json (files w)) ds"
  shows "response_key (fst (get_combined_json loads update_iter w)) ''__comment__'' \<noteq> None
         \<and> (ds = before @ d # after \<and> d ''__comment__'' = Some v
              \<and> (\<forall>d'\<in>set after. d' ''__comment__'' = None)
              \<longrightarrow> response_key (fst (get_combined_json loads update_iter w)) ''__comment__''
                    = Some v)
         \<and> ((\<forall>d\<in>set ds. d ''__comment__'' = None)
              \<longrightarrow> response_key (fst (get_combined_json loads update_iter w)) ''__comment__''
                    = Some (JStr ''Combined data''))"
proof -
  let ?seed = "[''__comment__'' \<mapsto> JStr ''Combined data'']"
  have p: "foldl (++) m ds ''__comment__'' \<noteq> None" if "m ''__comment__'' \<noteq> None" for m
    using that by (induction ds arbitrary: m) (auto simp add: map_add_def split: option.splits)
  have r: "response_key (fst (get_combined_json loads update_iter w)) ''__comment__''
             = foldl (++) ?seed ds ''__comment__''"
    using merge_files_objects [OF assms]
    by (simp add: get_combined_json_def response_key_def)
  have "foldl (++) ?seed ds ''__comment__'' \<noteq> None"
    by (rule p) simp
  moreover have "foldl (++) ?seed ds ''__comment__'' = Some v"
    if "ds = before @ d # after" "d ''__comment__'' = Some v"
       "\<forall>d'\<in>set after. d' ''__comment__'' = None"
    using that by (simp add: foldl_map_add_last del: foldl_append)
  moreover have "foldl (++) ?seed ds ''__comment__'' = Some (JStr ''Combined data'')"
    if "\<forall>d\<in>set ds. d ''__comment__'' = None"
    using that by (simp add: foldl_map_add_none)
  ultimately show ?thesis unfolding r by blast
qed


lemma example_texts: "chess_text \<noteq> go_text" "go_text \<noteq> chess_text"
  by (simp_all add: chess_text_def go_text_def)

lemma two_games_parse:
  "list_all2 (\<lambda>json_file d. \<exists>data. read_text (files two_games) json_file = Inr data
                                \<and> example_loads data = Inr (JObj d))
     (rglob_data_json (files two_games)) [chess_data, go_data]"
  by (simp add: two_games_def example_loads_def example_texts)

lemma one_game_parse:
  "list_all2 (\<lambda>json_file d. \<exists>data. read_text (files one_game) json_file = Inr data
                                \<and> example_loads data = Inr (JObj d))
     (rglob_data_json (files one_game)) [chess_data]"
  by (simp add: one_game_def example_loads_def)

theorem combined_is_ordered_merge_witness:
  "list_all2 (\<lambda>json_file d. \<exists>data. read_text (files two_games) json_file = Inr data
                                \<and> example_loads data = Inr (JObj d))
     (rglob_data_json (files two_games)) [chess_data, go_data]
   \<and> chess_data ''title'' = Some (JStr ''Chess'')
   \<and> go_data ''title'' = Some (JStr ''Go'')
   \<and> get_combined_json example_loads no_update_iter two_games
       = (Inr (JObj (foldl (++) [''__comment__'' \<mapsto> JStr ''Combined data'']
                       [chess_data, go_data])), two_games)
   \<and> foldl (++) [''__comment__'' \<mapsto> JStr ''Combined data''] [chess_data, go_data] ''title''
       = Some (JStr ''Go'')
   \<and> foldl (++) [''__comment__'' \<mapsto> JStr ''Combined data''] [chess_data, go_data] ''rating''
       = None
   \<and> response_key (fst (get_combined_json example_loads no_update_iter two_games)) ''title''
       = Some (JStr ''Go'')"
  using combined_is_ordered_merge
          [where loads = example_loads and w = two_games and update_iter = no_update_iter
             and ds = "[chess_data, go_data]" and before = "[chess_data]" and d = go_data
             and after = "[]" and k = "''title''" and v = "JStr ''Go''"
             and k' = "''rating''" and ?d1.0 = chess_data and ?d2.0 = go_data
             and ?t1.0 = "JStr ''Chess''" and ?t2.0 = "JStr ''Go''",
           OF two_games_parse]
        two_games_parse
  by (simp add: chess_data_def go_data_def response_key_def)

theorem comment_marker_overridable_witness:
  "go_data ''__comment__'' = Some (JStr ''go'')
   \<and> response_key (fst (get_combined_json example_loads no_update_iter two_games))
         ''__comment__'' = Some (JStr ''go'')
   \<and> chess_data ''__comment__'' = None
   \<and> response_key (fst (get_combined_json example_loads no_update_iter one_game))
         ''__comment__'' = Some (JStr ''Combined data'')"
  using comment_marker_overridable
          [where loads = example_loads and w = two_games and update_iter = no_update_iter
             and ds = "[chess_data, go_data]" and before = "[chess_data]" and d = go_data
             and after = "[]" and v = "JStr ''go''",
           OF two_games_parse]
        comment_marker_overridable
          [where loads = example_loads and w = one_game and update_iter = no_update_iter
             and ds = "[chess_data]" and before = "[]" and d = chess_data
             and after = "[]" and v = "JNull",
           OF one_game_parse]
  by (simp add: chess_data_def go_data_def)



section \<open>The lookup of a user\<close>

text \<open>
  C8. For every user id: when no row has the id the answer is \<^verbatim>\<open>HTTPException(404)\<close>;
  when a row has it, the answer is the flat object of the four fields \<^verbatim>\<open>id\<close>,
  \<^verbatim>\<open>email\<close>, \<^verbatim>\<open>username\<close> and \<^verbatim>\<open>profile_picture_url\<close> of a row with that id (the
  first one; the primary key allows one only); and the state is unchanged in every case.
\<close>

theorem user_lookup:
  "(user_id \<notin> set (map id_col (users w))
      \<longrightarrow> get_user_data user_id w = (Inl (HTTPException 404 ''User not found''), w)
          \<and> status_code (fst (get_user_data user_id w)) = 404)
   \<and> (user_id \<in> set (map id_col (users w))
      \<longrightarrow> (\<exists>db_user\<in>set (users w).
             id_col db_user = user_id
             \<and> get_user_data user_id w
                 = (Inr (JObj [''id'' \<mapsto> JStr user_id,
                               ''email'' \<mapsto> nullable (email db_user),
                               ''username'' \<mapsto> nullable (username db_user),
                               ''profile_picture_url''
                                 \<mapsto> nullable (profile_picture_url db_user)]),
                    w)))
   \<and> snd (get_user_data user_id w) = w"
proof -
  have a: "get_user_data user_id w = (Inl (HTTPException 404 ''User not found''), w)"
    if "user_id \<notin> set (map id_col (users w))"
  proof -
    from that have "find (\<lambda>u. id_col u = user_id) (users w) = None"
      using find_id_none [of user_id "users w"] by blast
    then show ?thesis by (simp add: get_user_data_def)
  qed
  have b: "\<exists>db_user\<in>set (users w).
             id_col db_user = user_id
             \<and> get_user_data user_id w
                 = (Inr (JObj [''id'' \<mapsto> JStr user_id,
                               ''email'' \<mapsto> nullable (email db_user),
                               ''username'' \<mapsto> nullable (username db_user),
                               ''profile_picture_url''
                                 \<mapsto> nullable (profile_picture_url db_user)]),
                    w)"
    if "user_id \<in> set (map id_col (users w))"
  proof -
    from find_id_member [OF that] obtain u where
      u: "find (\<lambda>u. id_col u = user_id) (users w) = Some u" "id_col u = user_id"
      by blast
    from u(1) have "u \<in> set (users w)" by (rule find_id_Some [THEN conjunct2])
    moreover have "get_user_data user_id w
                 = (Inr (JObj [''id'' \<mapsto> JStr user_id,
                               ''email'' \<mapsto> nullable (email u),
                               ''username'' \<mapsto> nullable (username u),
                               ''profile_picture_url'' \<mapsto> nullable (profile_picture_url u)]),
                    w)"
      using u by (simp add: get_user_data_def user_json_def)
    ultimately show ?thesis using u(2) by blast
  qed
  have c: "snd (get_user_data user_id w) = w"
    by (simp add: get_user_data_def split: option.splits)
  have d: "status_code (fst (get_user_data user_id w)) = 404"
    if "user_id \<notin> set (map id_col (users w))"
    using a [OF that] by simp
  from a b c d show ?thesis by blast
qed


theorem user_lookup_witness:
  "''user_2'' \<in> set (map id_col (users two_users))
   \<and> get_user_data ''user_2'' two_users
       = (Inr (JObj [''id'' \<mapsto> JStr ''user_2'', ''email'' \<mapsto> JStr ''bob@example.com'',
                     ''username'' \<mapsto> JStr ''bob'',
                     ''profile_picture_url'' \<mapsto> JStr ''https://img.example.com/2.png'']),
          two_users)
   \<and> ''user_9'' \<notin> set (map id_col (users two_users))
   \<and> get_user_data ''user_9'' two_users
       = (Inl (HTTPException 404 ''User not found''), two_users)"
  using user_lookup [where w = two_users and user_id = "''user_2''"]
        user_lookup [where w = two_users and user_id = "''user_9''"]
  by (auto simp add: two_users_simps alice_def bob_def nullable_def)

end
